theory Spec2Isabelle
  imports Complex_Main "HOL-Library.AList"
begin

section \<open>Numbers\<close>

text \<open>
  The numeric cells of the data frame are double-precision floats. A finite float is
  modelled by the real number it denotes and arithmetic on finite values is exact: the
  rounding error and the overflow of binary64 are not modelled, and there is one zero
  (no negative zero). The three special values are kept, because the summary of
  \<open>process_file\<close> produces them: the mean of an empty column is NaN and a division by
  a zero mean gives NaN or an infinity (the operands are NumPy scalars, which do not
  raise ZeroDivisionError).
\<close>

datatype pyfloat = Finite real | PosInf | NegInf | NaN

fun pf_sgn :: "pyfloat \<Rightarrow> real" where
  "pf_sgn (Finite a) = sgn a"
| "pf_sgn PosInf = 1"
| "pf_sgn NegInf = - 1"
| "pf_sgn NaN = 0"

definition inf_of_sign :: "real \<Rightarrow> pyfloat" where
  "inf_of_sign s = (if 0 < s then PosInf else if s < 0 then NegInf else NaN)"

fun pf_add :: "pyfloat \<Rightarrow> pyfloat \<Rightarrow> pyfloat" where
  "pf_add NaN y = NaN"
| "pf_add x NaN = NaN"
| "pf_add (Finite a) (Finite b) = Finite (a + b)"
| "pf_add PosInf NegInf = NaN"
| "pf_add NegInf PosInf = NaN"
| "pf_add PosInf y = PosInf"
| "pf_add x PosInf = PosInf"
| "pf_add NegInf y = NegInf"
| "pf_add x NegInf = NegInf"

fun pf_mul :: "pyfloat \<Rightarrow> pyfloat \<Rightarrow> pyfloat" where
  "pf_mul NaN y = NaN"
| "pf_mul x NaN = NaN"
| "pf_mul (Finite a) (Finite b) = Finite (a * b)"
| "pf_mul x y = inf_of_sign (pf_sgn x * pf_sgn y)"

fun pf_div :: "pyfloat \<Rightarrow> pyfloat \<Rightarrow> pyfloat" where
  "pf_div NaN y = NaN"
| "pf_div x NaN = NaN"
| "pf_div (Finite a) (Finite b) = (if b = 0 then inf_of_sign (sgn a) else Finite (a / b))"
| "pf_div (Finite a) y = Finite 0"
| "pf_div x (Finite b) = inf_of_sign (pf_sgn x * (if b < 0 then - 1 else 1))"
| "pf_div x y = NaN"

fun pf_lt :: "pyfloat \<Rightarrow> pyfloat \<Rightarrow> bool" where
  "pf_lt NaN y = False"
| "pf_lt x NaN = False"
| "pf_lt (Finite a) (Finite b) = (a < b)"
| "pf_lt x NegInf = False"
| "pf_lt PosInf y = False"
| "pf_lt x y = True"

text \<open>Python's \<open>min(a, b)\<close>: the first argument, unless the second is smaller.\<close>

definition py_min :: "pyfloat \<Rightarrow> pyfloat \<Rightarrow> pyfloat" where
  "py_min a b = (if pf_lt b a then b else a)"

text \<open>
  \<open>round(x, ndigits)\<close> on a float: the nearest multiple of \<open>10 ^ - ndigits\<close>, a tie going
  to the even multiple. The code rounds the binary64 value of the product, with Python's
  float \<open>round\<close> when \<open>capped_pct\<close> is the literal 5.0 and with NumPy's \<open>round\<close> otherwise;
  the model rounds the exact real product. Both return a nearest multiple, but which
  products are ties is a matter of the binary64 value, which the model does not have: the
  direction in which the model rounds a tie says nothing about the code, and no theorem
  below relies on it.
\<close>

definition round_half_even :: "real \<Rightarrow> int" where
  "round_half_even y =
     (let f = \<lfloor>y\<rfloor>; d = y - of_int f
      in if d < 1 / 2 then f
         else if 1 / 2 < d then f + 1
         else if even f then f else f + 1)"

fun py_round :: "pyfloat \<Rightarrow> nat \<Rightarrow> pyfloat" where
  "py_round (Finite x) n = Finite (of_int (round_half_even (x * 10 ^ n)) / 10 ^ n)"
| "py_round x n = x"

text \<open>
  \<open>Series.sum()\<close> and \<open>Series.mean()\<close> of pandas skip NaN entries; the sum of nothing is
  0 and the mean of nothing is NaN.
\<close>

definition series_sum :: "pyfloat list \<Rightarrow> pyfloat" where
  "series_sum xs = foldl pf_add (Finite 0) (filter (\<lambda>x. x \<noteq> NaN) xs)"

definition series_mean :: "pyfloat list \<Rightarrow> pyfloat" where
  "series_mean xs =
     (let ys = filter (\<lambda>x. x \<noteq> NaN) xs
      in if ys = [] then NaN
         else pf_div (foldl pf_add (Finite 0) ys) (Finite (real (length ys))))"

section \<open>The data frame\<close>

text \<open>
  A data frame is the list of its rows, in index order. The two columns that
  \<open>process_file\<close> reads from the uploaded sheet, \<open>ace_before\<close> and \<open>ace_after\<close>, are
  present, numeric and finite in every row, so they are fields of the row. Every other
  column (\<open>timestamp\<close>, extra columns, and the columns the function adds) is kept by
  name in \<open>cols\<close>, in column order: assigning \<open>df[name]\<close> replaces the column where it
  stands when the name exists and appends it otherwise.
\<close>

datatype cell = CFloat pyfloat | CInt int | CBool bool | CStr string

record row =
  ace_before :: real
  ace_after :: real
  cols :: "(string \<times> cell) list"

type_synonym dataframe = "row list"

datatype py_error = KeyError string | TypeError

definition row_get :: "row \<Rightarrow> string \<Rightarrow> py_error + cell" where
  "row_get r name = (case map_of (cols r) name of None \<Rightarrow> Inl (KeyError name) | Some c \<Rightarrow> Inr c)"

text \<open>\<open>df.apply(f, axis=1)\<close>: the function on every row, the first exception ending the call.\<close>

fun apply_rows :: "(row \<Rightarrow> py_error + 'a) \<Rightarrow> dataframe \<Rightarrow> py_error + 'a list" where
  "apply_rows f [] = Inr []"
| "apply_rows f (r # rs) =
     (case f r of
        Inl e \<Rightarrow> Inl e
      | Inr c \<Rightarrow> (case apply_rows f rs of Inl e \<Rightarrow> Inl e | Inr cs \<Rightarrow> Inr (c # cs)))"

text \<open>\<open>df[name]\<close> read as a column.\<close>

definition get_column :: "string \<Rightarrow> dataframe \<Rightarrow> py_error + cell list" where
  "get_column name df = apply_rows (\<lambda>r. row_get r name) df"

text \<open>\<open>df[name] = values\<close>; the values are as many as the rows wherever it is called.\<close>

definition set_column :: "string \<Rightarrow> cell list \<Rightarrow> dataframe \<Rightarrow> dataframe" where
  "set_column name vals df =
     map (\<lambda>(r, v). r\<lparr>cols := AList.update name v (cols r)\<rparr>) (zip df vals)"

text \<open>The numeric value of a cell, as the aggregations of pandas read it.\<close>

fun as_number :: "cell \<Rightarrow> py_error + pyfloat" where
  "as_number (CFloat x) = Inr x"
| "as_number (CInt i) = Inr (Finite (of_int i))"
| "as_number (CBool b) = Inr (Finite (if b then 1 else 0))"
| "as_number (CStr s) = Inl TypeError"

fun numbers :: "cell list \<Rightarrow> py_error + pyfloat list" where
  "numbers [] = Inr []"
| "numbers (c # cs) =
     (case as_number c of
        Inl e \<Rightarrow> Inl e
      | Inr x \<Rightarrow> (case numbers cs of Inl e \<Rightarrow> Inl e | Inr xs \<Rightarrow> Inr (x # xs)))"

text \<open>\<open>cell == k\<close> for an integer literal \<open>k\<close>.\<close>

fun cell_eq_int :: "cell \<Rightarrow> int \<Rightarrow> bool" where
  "cell_eq_int (CInt i) k = (i = k)"
| "cell_eq_int (CFloat (Finite x)) k = (x = of_int k)"
| "cell_eq_int (CFloat x) k = False"
| "cell_eq_int (CBool b) k = ((if b then 1 else 0) = k)"
| "cell_eq_int (CStr s) k = False"

section \<open>process_file\<close>

text \<open>
  The three row functions handed to \<open>df.apply\<close>. The column that \<open>apply\<close> builds from
  the absolute differences and the literal \<open>0\<close> is numeric, so the literal is stored as
  the number 0.
\<close>

definition more_or_less_lambda :: "row \<Rightarrow> py_error + cell" where
  "more_or_less_lambda r =
     Inr (CStr (if ace_after r > ace_before r then ''more''
                else if ace_after r < ace_before r then ''less''
                else ''equal''))"

definition error_lambda :: "row \<Rightarrow> py_error + cell" where
  "error_lambda r =
     Inr (CFloat (Finite (if ace_before r \<noteq> ace_after r then \<bar>ace_after r - ace_before r\<bar> else 0)))"

definition estimated_lambda :: "pyfloat \<Rightarrow> row \<Rightarrow> py_error + cell" where
  "estimated_lambda capped_pct r =
     (case row_get r ''anomaly_score'' of
        Inl e \<Rightarrow> Inl e
      | Inr s \<Rightarrow>
          Inr (if cell_eq_int s (- 1) then CFloat (Finite (ace_before r))
               else CFloat (py_round (pf_mul (Finite (ace_before r))
                                        (pf_add (Finite 1) (pf_div capped_pct (Finite 100)))) 4)))"

text \<open>
  What \<open>process_file\<close> returns, together with the two sheets it writes: \<open>written\<close>
  lists each file with the table saved in it.
\<close>

record result =
  table1 :: dataframe
  table2 :: dataframe
  avg_error :: pyfloat
  avg_error_pct :: pyfloat
  total_error :: pyfloat
  capped_pct :: pyfloat
  file1 :: string
  file2 :: string
  written :: "(string \<times> dataframe) list"

text \<open>
  \<open>process_file\<close>, statement by statement. The argument \<open>df0\<close> is the frame that
  \<open>pd.read_excel(file)\<close> returned and \<open>time_id\<close> the formatted clock reading. The
  function has no \<open>raise\<close> of its own; the only exceptions in the model are the ones a
  column or cell access by name can raise.
\<close>

definition process_file :: "string \<Rightarrow> dataframe \<Rightarrow> py_error + result" where
  "process_file time_id df0 =
     (let df1 = set_column ''anomaly_score''
                  (map (\<lambda>r. CInt (if ace_before r \<noteq> ace_after r then 1 else - 1)) df0) df0
      in case get_column ''anomaly_score'' df1 of
        Inl e \<Rightarrow> Inl e
      | Inr score \<Rightarrow>
     (let df2 = set_column ''is_anomaly'' (map (\<lambda>c. CBool (cell_eq_int c 1)) score) df1
      in case apply_rows more_or_less_lambda df2 of
        Inl e \<Rightarrow> Inl e
      | Inr direction \<Rightarrow>
     (let df3 = set_column ''more_or_less'' direction df2
      in case apply_rows error_lambda df3 of
        Inl e \<Rightarrow> Inl e
      | Inr err \<Rightarrow>
     (let df4 = set_column ''error'' err df3;
          t1 = df4
      in case get_column ''error'' t1 of
        Inl e \<Rightarrow> Inl e
      | Inr error_cells \<Rightarrow>
     (case numbers error_cells of
        Inl e \<Rightarrow> Inl e
      | Inr errors \<Rightarrow>
     (let avg = series_mean errors;
          avg_pct = pf_mul (pf_div avg (series_mean (map (\<lambda>r. Finite (ace_before r)) t1)))
                      (Finite 100);
          total = series_sum errors;
          capped = py_min avg_pct (Finite 5)
      in case apply_rows (estimated_lambda capped) t1 of
        Inl e \<Rightarrow> Inl e
      | Inr estimated \<Rightarrow>
     (let t2 = set_column ''estimated'' estimated t1;
          f1 = ''output/table1_raw_'' @ time_id @ ''.xlsx'';
          f2 = ''output/table2_corrected_'' @ time_id @ ''.xlsx''
      in Inr \<lparr>table1 = t1, table2 = t2, avg_error = avg, avg_error_pct = avg_pct,
              total_error = total, capped_pct = capped, file1 = f1, file2 = f2,
              written = [(f1, t1), (f2, t2)]\<rparr>)))))))"

section \<open>The tables in closed form\<close>

text \<open>
  The rows of the two tables written out as functions of the input row, for the proofs:
  \<open>process_file_closed\<close> below shows that \<open>process_file\<close> computes exactly these.
\<close>

definition score_of :: "row \<Rightarrow> int" where
  "score_of r = (if ace_before r \<noteq> ace_after r then 1 else - 1)"

definition direction_of :: "row \<Rightarrow> string" where
  "direction_of r = (if ace_after r > ace_before r then ''more''
                else if ace_after r < ace_before r then ''less''
                else ''equal'')"

definition error_of :: "row \<Rightarrow> real" where
  "error_of r = (if ace_before r \<noteq> ace_after r then \<bar>ace_after r - ace_before r\<bar> else 0)"

definition detect :: "row \<Rightarrow> row" where
  "detect r = r\<lparr>cols :=
     AList.update ''error'' (CFloat (Finite (error_of r)))
       (AList.update ''more_or_less'' (CStr (direction_of r))
         (AList.update ''is_anomaly'' (CBool (score_of r = 1))
           (AList.update ''anomaly_score'' (CInt (score_of r)) (cols r))))\<rparr>"

definition estimate :: "pyfloat \<Rightarrow> row \<Rightarrow> cell" where
  "estimate capped r =
     (if score_of r = - 1 then CFloat (Finite (ace_before r))
      else CFloat (py_round (pf_mul (Finite (ace_before r))
                                        (pf_add (Finite 1) (pf_div capped (Finite 100)))) 4))"

definition correct :: "pyfloat \<Rightarrow> row \<Rightarrow> row" where
  "correct capped r = (detect r)\<lparr>cols := AList.update ''estimated'' (estimate capped r) (cols (detect r))\<rparr>"

text \<open>Reading a table: a column by name, and one cell of it.\<close>

definition column :: "string \<Rightarrow> dataframe \<Rightarrow> cell option list" where
  "column name df = map (\<lambda>r. map_of (cols r) name) df"

definition cell_at :: "dataframe \<Rightarrow> nat \<Rightarrow> string \<Rightarrow> cell option" where
  "cell_at df i name = (if i < length df then map_of (cols (df ! i)) name else None)"

section \<open>Example inputs\<close>

text \<open>The three-row scenario of the specification.\<close>

definition scenario_rows :: dataframe where
  "scenario_rows =
     [\<lparr>ace_before = 10, ace_after = 10, cols = [(''timestamp'', CStr ''t1'')]\<rparr>,
      \<lparr>ace_before = 10, ace_after = 12, cols = [(''timestamp'', CStr ''t2'')]\<rparr>,
      \<lparr>ace_before = 5, ace_after = 4, cols = [(''timestamp'', CStr ''t3'')]\<rparr>]"

text \<open>Two rows whose before values have mean 0, one of them anomalous.\<close>

definition zero_mean_rows :: dataframe where
  "zero_mean_rows =
     [\<lparr>ace_before = - 1, ace_after = 1, cols = []\<rparr>, \<lparr>ace_before = 1, ace_after = 1, cols = []\<rparr>]"

text \<open>The (before, after) value pairs of a table.\<close>

definition value_pairs :: "dataframe \<Rightarrow> (real \<times> real) list" where
  "value_pairs df = map (\<lambda>r. (ace_before r, ace_after r)) df"

text \<open>The value pairs of the scenario, with no other column.\<close>

definition scenario_pairs_only :: dataframe where
  "scenario_pairs_only =
     [\<lparr>ace_before = 10, ace_after = 10, cols = []\<rparr>,
      \<lparr>ace_before = 10, ace_after = 12, cols = []\<rparr>,
      \<lparr>ace_before = 5, ace_after = 4, cols = []\<rparr>]"

text \<open>One row with a \<open>timestamp\<close>, an extra column \<open>site\<close> and an extra column named \<open>error\<close>.\<close>

definition clashing_rows :: dataframe where
  "clashing_rows =
     [\<lparr>ace_before = 1, ace_after = 2,
       cols = [(''timestamp'', CStr ''t1''), (''site'', CStr ''north''),
               (''error'', CStr ''sensor fault'')]\<rparr>]"

text \<open>
  Two rows, the first anomalous with a corrected value of more than four decimals, the
  second not anomalous.
\<close>

definition rounding_rows :: dataframe where
  "rounding_rows =
     [\<lparr>ace_before = 12345 / 100000, ace_after = 1, cols = []\<rparr>,
      \<lparr>ace_before = 2, ace_after = 2, cols = []\<rparr>]"

text \<open>One anomalous row, direction "less", with a small positive before value.\<close>

definition tiny_rows :: dataframe where
  "tiny_rows = [\<lparr>ace_before = 1 / 100000, ace_after = 0, cols = []\<rparr>]"

section \<open>Auxiliary lemmas\<close>

lemma set_column_map:
  "set_column n (map f df) df = map (\<lambda>r. r\<lparr>cols := AList.update n (f r) (cols r)\<rparr>) df"
  by (induction df) (simp_all add: set_column_def)

lemma numbers_floats: "numbers (map (\<lambda>r. CFloat (h r)) df) = Inr (map h df)"
  by (induction df) simp_all

lemma foldl_pf_add_Finite:
  "foldl pf_add (Finite a) (map Finite xs) = Finite (a + sum_list xs)"
  by (induction xs arbitrary: a) (simp_all add: add.assoc)

lemma filter_Finite: "filter (\<lambda>x. x \<noteq> NaN) (map Finite xs) = map Finite xs"
  by (induction xs) simp_all

lemma series_sum_Finite: "series_sum (map Finite xs) = Finite (sum_list xs)"
  by (simp add: series_sum_def filter_Finite foldl_pf_add_Finite)

lemma series_mean_Finite:
  "series_mean (map Finite xs) =
     (if xs = [] then NaN else Finite (sum_list xs / real (length xs)))"
  by (simp add: series_mean_def filter_Finite foldl_pf_add_Finite Let_def)

lemma set_column_map2:
  "set_column n (map f df) (map g df) =
     map (\<lambda>r. (g r)\<lparr>cols := AList.update n (f r) (cols (g r))\<rparr>) df"
  by (induction df) (simp_all add: set_column_def)

lemma apply_rows_map:
  "(\<And>r. f (g r) = Inr (h r)) \<Longrightarrow> apply_rows f (map g df) = Inr (map h df)"
  by (induction df) simp_all

lemma get_column_map:
  "(\<And>r. map_of (cols (g r)) n = Some (f r)) \<Longrightarrow> get_column n (map g df) = Inr (map f df)"
  unfolding get_column_def by (rule apply_rows_map) (simp add: row_get_def)

lemma process_file_closed:
  "process_file time_id df =
     (let avg = series_mean (map (\<lambda>r. Finite (error_of r)) df);
          avg_pct = pf_mul (pf_div avg (series_mean (map (\<lambda>r. Finite (ace_before r)) df))) (Finite 100);
          capped = py_min avg_pct (Finite 5);
          f1 = ''output/table1_raw_'' @ time_id @ ''.xlsx'';
          f2 = ''output/table2_corrected_'' @ time_id @ ''.xlsx''
      in Inr \<lparr>table1 = map detect df, table2 = map (correct capped) df,
              avg_error = avg, avg_error_pct = avg_pct,
              total_error = series_sum (map (\<lambda>r. Finite (error_of r)) df),
              capped_pct = capped, file1 = f1, file2 = f2,
              written = [(f1, map detect df), (f2, map (correct capped) df)]\<rparr>)"
proof -
  let ?s = "\<lambda>r. r\<lparr>cols := AList.update ''anomaly_score'' (CInt (score_of r)) (cols r)\<rparr>"
  let ?a = "\<lambda>r. (?s r)\<lparr>cols := AList.update ''is_anomaly'' (CBool (score_of r = 1)) (cols (?s r))\<rparr>"
  let ?m = "\<lambda>r. (?a r)\<lparr>cols := AList.update ''more_or_less'' (CStr (direction_of r)) (cols (?a r))\<rparr>"
  have df1: "set_column ''anomaly_score''
                  (map (\<lambda>r. CInt (if ace_before r \<noteq> ace_after r then 1 else - 1)) df) df = map ?s df"
    by (simp add: set_column_map score_of_def)
  have sc: "get_column ''anomaly_score'' (map ?s df) = Inr (map (\<lambda>r. CInt (score_of r)) df)"
    by (rule get_column_map) (simp add: update_conv')
  have df2: "set_column ''is_anomaly'' (map (\<lambda>c. CBool (cell_eq_int c 1)) (map (\<lambda>r. CInt (score_of r)) df)) (map ?s df)
      = map ?a df"
    by (simp add: set_column_map2 comp_def)
  have dir: "apply_rows more_or_less_lambda (map ?a df) = Inr (map (\<lambda>r. CStr (direction_of r)) df)"
    by (rule apply_rows_map) (simp add: more_or_less_lambda_def direction_of_def)
  have df3: "set_column ''more_or_less'' (map (\<lambda>r. CStr (direction_of r)) df) (map ?a df) = map ?m df"
    by (simp add: set_column_map2)
  have err: "apply_rows error_lambda (map ?m df) = Inr (map (\<lambda>r. CFloat (Finite (error_of r))) df)"
    by (rule apply_rows_map) (simp add: error_lambda_def error_of_def)
  have df4: "set_column ''error'' (map (\<lambda>r. CFloat (Finite (error_of r))) df) (map ?m df) = map detect df"
    by (simp add: set_column_map2 detect_def)
  have ec: "get_column ''error'' (map detect df) = Inr (map (\<lambda>r. CFloat (Finite (error_of r))) df)"
    by (rule get_column_map) (simp add: detect_def update_conv')
  have nums: "numbers (map (\<lambda>r. CFloat (Finite (error_of r))) df) = Inr (map (\<lambda>r. Finite (error_of r)) df)"
    by (rule numbers_floats)
  have bef: "map (\<lambda>r. Finite (ace_before r)) (map detect df) = map (\<lambda>r. Finite (ace_before r)) df"
    by (simp add: detect_def comp_def)
  have est: "apply_rows (estimated_lambda c) (map detect df) = Inr (map (estimate c) df)" for c
    by (rule apply_rows_map)
       (simp add: estimated_lambda_def estimate_def row_get_def detect_def update_conv' score_of_def)
  have t2: "set_column ''estimated'' (map (estimate c) df) (map detect df) = map (correct c) df" for c
    by (simp add: set_column_map2 correct_def)
  show ?thesis
    unfolding process_file_def
    by (simp only: df1 sc df2 dir df3 err df4 ec nums bef est t2 Let_def sum.case)
qed

lemma process_file_fields:
  obtains out where "process_file time_id df = Inr out"
    and "table1 out = map detect df"
    and "table2 out = map (correct (capped_pct out)) df"
    and "avg_error out = series_mean (map (\<lambda>r. Finite (error_of r)) df)"
    and "avg_error_pct out =
           pf_mul (pf_div (avg_error out) (series_mean (map (\<lambda>r. Finite (ace_before r)) df)))
             (Finite 100)"
    and "total_error out = series_sum (map (\<lambda>r. Finite (error_of r)) df)"
    and "capped_pct out = py_min (avg_error_pct out) (Finite 5)"
  by (simp add: process_file_closed Let_def)

lemma detect_cells:
  "map_of (cols (detect r)) ''anomaly_score'' = Some (CInt (score_of r))"
  "map_of (cols (detect r)) ''is_anomaly'' = Some (CBool (score_of r = 1))"
  "map_of (cols (detect r)) ''more_or_less'' = Some (CStr (direction_of r))"
  "map_of (cols (detect r)) ''error'' = Some (CFloat (Finite (error_of r)))"
  by (simp_all add: detect_def update_conv')

lemma correct_cells:
  "map_of (cols (correct c r)) ''anomaly_score'' = Some (CInt (score_of r))"
  "map_of (cols (correct c r)) ''is_anomaly'' = Some (CBool (score_of r = 1))"
  "map_of (cols (correct c r)) ''more_or_less'' = Some (CStr (direction_of r))"
  "map_of (cols (correct c r)) ''error'' = Some (CFloat (Finite (error_of r)))"
  "map_of (cols (correct c r)) ''estimated'' = Some (estimate c r)"
  by (simp_all add: correct_def detect_def update_conv')

lemma detect_fields: "ace_before (detect r) = ace_before r" "ace_after (detect r) = ace_after r"
  by (simp_all add: detect_def)

lemma correct_fields: "ace_before (correct c r) = ace_before r" "ace_after (correct c r) = ace_after r"
  by (simp_all add: correct_def detect_def)

lemma estimated_lambda_reads:
  "ace_before r = ace_before r' \<Longrightarrow>
   map_of (cols r) ''anomaly_score'' = map_of (cols r') ''anomaly_score'' \<Longrightarrow>
   estimated_lambda c r = estimated_lambda c r'"
  by (simp add: estimated_lambda_def row_get_def split: option.split)

lemma estimated_lambda_detect: "estimated_lambda c (detect r) = Inr (estimate c r)"
  by (simp add: estimated_lambda_def estimate_def row_get_def detect_def update_conv' score_of_def)

section \<open>The anomaly classifier\<close>

text \<open>
  Claim C1. \<open>process_file\<close> returns for every input, and in Table 1 every row carries
  \<open>anomaly_score\<close> = 1 if before and after differ and -1 otherwise, \<open>more_or_less\<close> =
  "more" if after > before, "less" if after < before and "equal" otherwise, and
  \<open>error\<close> = |after - before| if the two differ and 0 if they are equal.
\<close>

theorem classifier_columns:
  "\<exists>out. process_file time_id df = Inr out \<and>
     column ''anomaly_score'' (table1 out) =
       map (\<lambda>r. Some (CInt (if ace_before r \<noteq> ace_after r then 1 else - 1))) df \<and>
     column ''more_or_less'' (table1 out) =
       map (\<lambda>r. Some (CStr (if ace_after r > ace_before r then ''more''
                              else if ace_after r < ace_before r then ''less''
                              else ''equal''))) df \<and>
     column ''error'' (table1 out) =
       map (\<lambda>r. Some (CFloat (Finite (if ace_before r \<noteq> ace_after r
                                         then \<bar>ace_after r - ace_before r\<bar> else 0)))) df"
  by (simp add: process_file_closed Let_def column_def detect_cells comp_def
        score_of_def direction_of_def error_of_def)

theorem classifier_columns_witness:
  "column ''anomaly_score'' (table1 (projr (process_file ''20240101_120000'' scenario_rows))) =
     [Some (CInt (- 1)), Some (CInt 1), Some (CInt 1)] \<and>
   column ''more_or_less'' (table1 (projr (process_file ''20240101_120000'' scenario_rows))) =
     [Some (CStr ''equal''), Some (CStr ''more''), Some (CStr ''less'')] \<and>
   column ''error'' (table1 (projr (process_file ''20240101_120000'' scenario_rows))) =
     [Some (CFloat (Finite 0)), Some (CFloat (Finite 2)), Some (CFloat (Finite 1))]"
  using classifier_columns [of "''20240101_120000''" scenario_rows]
  by (auto simp: scenario_rows_def)

text \<open>
  Claim C4. In every row of Table 1 the four detection fields agree: \<open>is_anomaly\<close> holds
  iff \<open>anomaly_score\<close> is 1, iff \<open>error\<close> is positive, iff \<open>more_or_less\<close> is not "equal"
  (and iff before and after differ).
\<close>

theorem detection_fields_consistent:
  "i < length df \<Longrightarrow>
   \<exists>out b s e d. process_file time_id df = Inr out \<and>
     cell_at (table1 out) i ''is_anomaly'' = Some (CBool b) \<and>
     cell_at (table1 out) i ''anomaly_score'' = Some (CInt s) \<and>
     cell_at (table1 out) i ''error'' = Some (CFloat (Finite e)) \<and>
     cell_at (table1 out) i ''more_or_less'' = Some (CStr d) \<and>
     (b \<longleftrightarrow> s = 1) \<and> (b \<longleftrightarrow> 0 < e) \<and> (b \<longleftrightarrow> d \<noteq> ''equal'') \<and>
     (b \<longleftrightarrow> ace_before (df ! i) \<noteq> ace_after (df ! i))"
  by (simp add: process_file_closed Let_def cell_at_def detect_cells
        score_of_def direction_of_def error_of_def)


theorem detection_fields_consistent_witness:
  "1 < length scenario_rows \<and>
   cell_at (table1 (projr (process_file ''20240101_120000'' scenario_rows))) 1 ''is_anomaly'' =
     Some (CBool True) \<and>
   cell_at (table1 (projr (process_file ''20240101_120000'' scenario_rows))) 1 ''anomaly_score'' =
     Some (CInt 1) \<and>
   cell_at (table1 (projr (process_file ''20240101_120000'' scenario_rows))) 1 ''error'' =
     Some (CFloat (Finite 2)) \<and>
   cell_at (table1 (projr (process_file ''20240101_120000'' scenario_rows))) 1 ''more_or_less'' =
     Some (CStr ''more'')"
proof -
  have h: "1 < length scenario_rows"
    by (simp add: scenario_rows_def)
  have v: "cell_at (table1 (projr (process_file ''20240101_120000'' scenario_rows))) 1 ''is_anomaly'' =
     Some (CBool True)"
    "cell_at (table1 (projr (process_file ''20240101_120000'' scenario_rows))) 1 ''anomaly_score'' =
     Some (CInt 1)"
    "cell_at (table1 (projr (process_file ''20240101_120000'' scenario_rows))) 1 ''error'' =
     Some (CFloat (Finite 2))"
    "cell_at (table1 (projr (process_file ''20240101_120000'' scenario_rows))) 1 ''more_or_less'' =
     Some (CStr ''more'')"
    by (simp_all add: process_file_closed Let_def cell_at_def detect_cells error_of_def
          score_of_def direction_of_def scenario_rows_def)
  from detection_fields_consistent [OF h, of "''20240101_120000''"] h v show ?thesis
    by simp
qed

section \<open>The summary\<close>

text \<open>
  Claim C3. For a non-empty input whose before values have a non-zero mean, \<open>avg_error\<close>
  is the mean of the error column, \<open>avg_error_pct\<close> is \<open>avg_error\<close> / mean(before) * 100,
  \<open>total_error\<close> is the sum of the error column and \<open>capped_pct\<close> is the minimum of
  \<open>avg_error_pct\<close> and 5; so \<open>capped_pct\<close> lies between 0 and 5 when \<open>avg_error_pct\<close> is
  not negative, and equals \<open>avg_error_pct\<close> when that is below 5.
\<close>

theorem summary_record:
  assumes "df \<noteq> []" and "sum_list (map ace_before df) / real (length df) \<noteq> 0"
  shows "\<exists>out errs p c. process_file time_id df = Inr out \<and>
     column ''error'' (table1 out) = map (\<lambda>e. Some (CFloat (Finite e))) errs \<and>
     avg_error out = Finite (sum_list errs / real (length errs)) \<and>
     avg_error_pct out = Finite p \<and>
     p = sum_list errs / real (length errs) / (sum_list (map ace_before df) / real (length df)) * 100 \<and>
     total_error out = Finite (sum_list errs) \<and>
     capped_pct out = Finite c \<and> c = min p 5 \<and>
     (0 \<le> p \<longrightarrow> 0 \<le> c \<and> c \<le> 5) \<and> (p < 5 \<longrightarrow> c = p)"
proof -
  let ?errs = "map error_of df"
  let ?mb = "sum_list (map ace_before df) / real (length df)"
  let ?p = "sum_list ?errs / real (length ?errs) / ?mb * 100"
  have e: "map (\<lambda>r. Finite (error_of r)) df = map Finite ?errs"
    by simp
  have b: "map (\<lambda>r. Finite (ace_before r)) df = map Finite (map ace_before df)"
    by simp
  have avg: "series_mean (map (\<lambda>r. Finite (error_of r)) df) = Finite (sum_list ?errs / real (length ?errs))"
    unfolding e series_mean_Finite using assms(1) by simp
  have mb: "series_mean (map (\<lambda>r. Finite (ace_before r)) df) = Finite ?mb"
    unfolding b series_mean_Finite using assms(1) by simp
  have tot: "series_sum (map (\<lambda>r. Finite (error_of r)) df) = Finite (sum_list ?errs)"
    unfolding e series_sum_Finite ..
  have pct: "pf_mul (pf_div (Finite (sum_list ?errs / real (length ?errs))) (Finite ?mb)) (Finite 100) = Finite ?p"
    using assms(2) by simp
  have cap: "py_min (Finite ?p) (Finite 5) = Finite (min ?p 5)"
    by (simp add: py_min_def min_def)
  have col: "column ''error'' (map detect df) = map (\<lambda>e. Some (CFloat (Finite e))) ?errs"
    by (simp add: column_def detect_cells comp_def)
  obtain out where out: "process_file time_id df = Inr out"
    and t1: "table1 out = map detect df"
    and f: "avg_error out = series_mean (map (\<lambda>r. Finite (error_of r)) df)"
      "avg_error_pct out =
           pf_mul (pf_div (avg_error out) (series_mean (map (\<lambda>r. Finite (ace_before r)) df)))
             (Finite 100)"
      "total_error out = series_sum (map (\<lambda>r. Finite (error_of r)) df)"
      "capped_pct out = py_min (avg_error_pct out) (Finite 5)"
    by (rule process_file_fields)
  have sc: "avg_error out = Finite (sum_list ?errs / real (length ?errs))"
      "avg_error_pct out = Finite ?p" "total_error out = Finite (sum_list ?errs)"
      "capped_pct out = Finite (min ?p 5)"
    unfolding f avg mb tot pct cap by (rule refl)+
  have "column ''error'' (table1 out) = map (\<lambda>e. Some (CFloat (Finite e))) ?errs"
    by (simp add: t1 col)
  moreover have "(0 \<le> ?p \<longrightarrow> 0 \<le> min ?p 5 \<and> min ?p 5 \<le> 5) \<and> (?p < 5 \<longrightarrow> min ?p 5 = ?p)"
    by linarith
  ultimately show ?thesis
    using out sc by blast
qed


theorem summary_record_witness:
  "scenario_rows \<noteq> [] \<and>
   sum_list (map ace_before scenario_rows) / real (length scenario_rows) \<noteq> 0 \<and>
   avg_error (projr (process_file ''20240101_120000'' scenario_rows)) = Finite 1 \<and>
   avg_error_pct (projr (process_file ''20240101_120000'' scenario_rows)) = Finite 12 \<and>
   total_error (projr (process_file ''20240101_120000'' scenario_rows)) = Finite 3 \<and>
   capped_pct (projr (process_file ''20240101_120000'' scenario_rows)) = Finite 5"
proof -
  have h1: "scenario_rows \<noteq> []"
    by (simp add: scenario_rows_def)
  have h2: "sum_list (map ace_before scenario_rows) / real (length scenario_rows) \<noteq> 0"
    by (simp add: scenario_rows_def)
  have v: "avg_error (projr (process_file ''20240101_120000'' scenario_rows)) = Finite 1"
    "avg_error_pct (projr (process_file ''20240101_120000'' scenario_rows)) = Finite 12"
    "total_error (projr (process_file ''20240101_120000'' scenario_rows)) = Finite 3"
    "capped_pct (projr (process_file ''20240101_120000'' scenario_rows)) = Finite 5"
    by (simp_all add: process_file_closed Let_def scenario_rows_def series_mean_def series_sum_def
          error_of_def py_min_def)
  from summary_record [OF h1 h2, of "''20240101_120000''"] h1 h2 v show ?thesis
    by simp
qed

section \<open>Degenerate inputs\<close>

text \<open>
  Claim C5, as amended. \<open>process_file\<close> has no check for an empty frame and raises
  nothing on it: it returns (and writes) two empty tables, with \<open>total_error\<close> = 0 and
  NaN for \<open>avg_error\<close>, \<open>avg_error_pct\<close> and \<open>capped_pct\<close>.
\<close>

theorem empty_input_returns:
  "\<exists>out. process_file time_id [] = Inr out \<and>
     table1 out = [] \<and> table2 out = [] \<and>
     written out = [(file1 out, []), (file2 out, [])] \<and>
     avg_error out = NaN \<and> avg_error_pct out = NaN \<and> capped_pct out = NaN \<and>
     total_error out = Finite 0"
  by (simp add: process_file_closed Let_def series_mean_def series_sum_def py_min_def)

text \<open>The claim as stated (an error is raised, no table and no NaN is produced) fails.\<close>

theorem empty_input_counterexample:
  "process_file ''20240101_120000'' [] =
     Inr \<lparr>table1 = [], table2 = [], avg_error = NaN, avg_error_pct = NaN,
          total_error = Finite 0, capped_pct = NaN,
          file1 = ''output/table1_raw_20240101_120000.xlsx'',
          file2 = ''output/table2_corrected_20240101_120000.xlsx'',
          written = [(''output/table1_raw_20240101_120000.xlsx'', []),
                     (''output/table2_corrected_20240101_120000.xlsx'', [])]\<rparr>"
  by (simp add: process_file_def set_column_def get_column_def series_mean_def series_sum_def
        py_min_def Let_def)

lemma error_of_zero_iff: "error_of r = 0 \<longleftrightarrow> ace_before r = ace_after r"
  by (simp add: error_of_def)

lemma sum_error_of_zero_iff:
  "sum_list (map error_of df) = 0 \<longleftrightarrow> (\<forall>r\<in>set df. ace_before r = ace_after r)"
proof -
  have "sum_list (map error_of df) = 0 \<longleftrightarrow> (\<forall>x\<in>set (map error_of df). x = 0)"
    by (rule sum_list_nonneg_eq_0_iff) (auto simp: error_of_def)
  also have "\<dots> \<longleftrightarrow> (\<forall>r\<in>set df. ace_before r = ace_after r)"
    by (simp add: error_of_zero_iff)
  finally show ?thesis .
qed

lemma sum_error_of_nonneg: "0 \<le> sum_list (map error_of df)"
  by (rule sum_list_nonneg) (auto simp: error_of_def)

text \<open>
  Claim C6, as amended. For a non-empty frame whose before values have mean 0,
  \<open>process_file\<close> raises nothing: it returns and writes both tables, with as many rows
  as the input; \<open>avg_error_pct\<close> is NaN and \<open>capped_pct\<close> is NaN when no row is
  anomalous, and \<open>avg_error_pct\<close> is plus infinity and \<open>capped_pct\<close> is 5 otherwise.
\<close>

theorem zero_baseline_returns:
  assumes "df \<noteq> []" and "sum_list (map ace_before df) / real (length df) = 0"
  shows "\<exists>out. process_file time_id df = Inr out \<and>
     length (table1 out) = length df \<and> length (table2 out) = length df \<and>
     written out = [(file1 out, table1 out), (file2 out, table2 out)] \<and>
     avg_error_pct out = (if \<forall>r\<in>set df. ace_before r = ace_after r then NaN else PosInf) \<and>
     capped_pct out = (if \<forall>r\<in>set df. ace_before r = ace_after r then NaN else Finite 5)"
proof -
  let ?errs = "map error_of df"
  let ?eq = "\<forall>r\<in>set df. ace_before r = ace_after r"
  have e: "map (\<lambda>r. Finite (error_of r)) df = map Finite ?errs"
    by simp
  have b: "map (\<lambda>r. Finite (ace_before r)) df = map Finite (map ace_before df)"
    by simp
  have avg: "series_mean (map (\<lambda>r. Finite (error_of r)) df) = Finite (sum_list ?errs / real (length df))"
    unfolding e series_mean_Finite using assms(1) by simp
  have mb: "series_mean (map (\<lambda>r. Finite (ace_before r)) df) = Finite 0"
    unfolding b series_mean_Finite using assms by simp
  have sg: "sgn (sum_list ?errs / real (length df)) = (if ?eq then 0 else 1)"
  proof (cases ?eq)
    case True
    then have "sum_list ?errs = 0"
      by (simp add: sum_error_of_zero_iff)
    with True show ?thesis by simp
  next
    case False
    then have "sum_list ?errs \<noteq> 0"
      by (simp add: sum_error_of_zero_iff)
    with sum_error_of_nonneg [of df] have "0 < sum_list ?errs"
      by simp
    moreover have "0 < real (length df)"
      using assms(1) by simp
    ultimately have "0 < sum_list ?errs / real (length df)"
      by (rule divide_pos_pos)
    then have "sgn (sum_list ?errs / real (length df)) = 1"
      by (simp only: sgn_1_pos)
    with False show ?thesis by (simp only: if_False)
  qed
  have d: "pf_div (Finite x) (Finite 0) = inf_of_sign (sgn x)" for x
    by simp
  have pct: "pf_mul (pf_div (Finite (sum_list ?errs / real (length df))) (Finite 0)) (Finite 100)
      = (if ?eq then NaN else PosInf)"
    unfolding d sg by (simp add: inf_of_sign_def)
  have cap: "py_min (if ?eq then NaN else PosInf) (Finite 5) = (if ?eq then NaN else Finite 5)"
    by (simp add: py_min_def)
  show ?thesis
    by (simp only: process_file_closed Let_def avg mb pct cap) simp
qed

text \<open>The scenario of the specification, one row with before = after = 0, returns.\<close>

theorem zero_baseline_counterexample:
  "process_file ''20240101_120000'' [\<lparr>ace_before = 0, ace_after = 0, cols = []\<rparr>] =
     Inr \<lparr>table1 = [\<lparr>ace_before = 0, ace_after = 0,
                      cols = [(''anomaly_score'', CInt (- 1)), (''is_anomaly'', CBool False),
                              (''more_or_less'', CStr ''equal''), (''error'', CFloat (Finite 0))]\<rparr>],
          table2 = [\<lparr>ace_before = 0, ace_after = 0,
                      cols = [(''anomaly_score'', CInt (- 1)), (''is_anomaly'', CBool False),
                              (''more_or_less'', CStr ''equal''), (''error'', CFloat (Finite 0)),
                              (''estimated'', CFloat (Finite 0))]\<rparr>],
          avg_error = Finite 0, avg_error_pct = NaN,
          total_error = Finite 0, capped_pct = NaN,
          file1 = ''output/table1_raw_20240101_120000.xlsx'',
          file2 = ''output/table2_corrected_20240101_120000.xlsx'',
          written =
            [(''output/table1_raw_20240101_120000.xlsx'',
              [\<lparr>ace_before = 0, ace_after = 0,
                 cols = [(''anomaly_score'', CInt (- 1)), (''is_anomaly'', CBool False),
                         (''more_or_less'', CStr ''equal''), (''error'', CFloat (Finite 0))]\<rparr>]),
             (''output/table2_corrected_20240101_120000.xlsx'',
              [\<lparr>ace_before = 0, ace_after = 0,
                 cols = [(''anomaly_score'', CInt (- 1)), (''is_anomaly'', CBool False),
                         (''more_or_less'', CStr ''equal''), (''error'', CFloat (Finite 0)),
                         (''estimated'', CFloat (Finite 0))]\<rparr>])]\<rparr>"
  by (simp add: process_file_def set_column_def get_column_def row_get_def
        more_or_less_lambda_def error_lambda_def estimated_lambda_def
        series_mean_def series_sum_def py_min_def inf_of_sign_def Let_def)

theorem zero_baseline_returns_witness:
  "zero_mean_rows \<noteq> [] \<and>
   sum_list (map ace_before zero_mean_rows) / real (length zero_mean_rows) = 0 \<and>
   length (table1 (projr (process_file ''20240101_120000'' zero_mean_rows))) = 2 \<and>
   avg_error_pct (projr (process_file ''20240101_120000'' zero_mean_rows)) = PosInf \<and>
   capped_pct (projr (process_file ''20240101_120000'' zero_mean_rows)) = Finite 5"
proof -
  have h1: "zero_mean_rows \<noteq> []"
    by (simp add: zero_mean_rows_def)
  have h2: "sum_list (map ace_before zero_mean_rows) / real (length zero_mean_rows) = 0"
    by (simp add: zero_mean_rows_def)
  from zero_baseline_returns [OF h1 h2, of "''20240101_120000''"] h1 h2 show ?thesis
    by (auto simp: zero_mean_rows_def)
qed

section \<open>Re-running on Table 1\<close>

lemma detect_idem: "detect (detect r) = detect r"
proof -
  have s: "score_of (detect r) = score_of r" "direction_of (detect r) = direction_of r"
    "error_of (detect r) = error_of r"
    by (simp_all add: score_of_def direction_of_def error_of_def detect_fields)
  let ?c = "cols (detect r)"
  have 1: "AList.update ''anomaly_score'' (CInt (score_of r)) ?c = ?c"
    by (rule update_triv) (rule detect_cells)
  have 2: "AList.update ''is_anomaly'' (CBool (score_of r = 1)) ?c = ?c"
    by (rule update_triv) (rule detect_cells)
  have 3: "AList.update ''more_or_less'' (CStr (direction_of r)) ?c = ?c"
    by (rule update_triv) (rule detect_cells)
  have 4: "AList.update ''error'' (CFloat (Finite (error_of r))) ?c = ?c"
    by (rule update_triv) (rule detect_cells)
  have "detect (detect r) = (detect r)\<lparr>cols := ?c\<rparr>"
    unfolding detect_def [of "detect r"] s 1 2 3 4 ..
  then show ?thesis by simp
qed

lemma correct_detect: "correct c (detect r) = correct c r"
  by (simp add: correct_def detect_idem estimate_def score_of_def detect_fields)

lemma error_of_detect: "error_of (detect r) = error_of r"
  by (simp add: error_of_def detect_fields)

lemma process_file_detect: "process_file time_id (map detect df) = process_file time_id df"
  by (simp add: process_file_closed Let_def comp_def detect_idem correct_detect error_of_detect
        detect_fields)

lemma value_pairs_detect: "value_pairs (map detect df) = value_pairs df"
  by (simp add: value_pairs_def detect_fields comp_def)

lemma summary_inputs_from_pairs:
  "map (\<lambda>r. Finite (error_of r)) df =
     map (\<lambda>(b, a). Finite (if b \<noteq> a then \<bar>a - b\<bar> else 0)) (value_pairs df)"
  "map (\<lambda>r. Finite (ace_before r)) df = map (\<lambda>(b, a). Finite b) (value_pairs df)"
  by (simp_all add: value_pairs_def error_of_def comp_def)

lemma detect_columns_from_pairs:
  "column ''anomaly_score'' (map detect df) =
     map (\<lambda>(b, a). Some (CInt (if b \<noteq> a then 1 else - 1))) (value_pairs df)"
  "column ''is_anomaly'' (map detect df) =
     map (\<lambda>(b, a). Some (CBool (b \<noteq> a))) (value_pairs df)"
  "column ''more_or_less'' (map detect df) =
     map (\<lambda>(b, a). Some (CStr (if a > b then ''more'' else if a < b then ''less'' else ''equal'')))
       (value_pairs df)"
  "column ''error'' (map detect df) =
     map (\<lambda>(b, a). Some (CFloat (Finite (if b \<noteq> a then \<bar>a - b\<bar> else 0)))) (value_pairs df)"
  by (simp_all add: column_def value_pairs_def detect_cells comp_def
        score_of_def direction_of_def error_of_def)

lemma process_file_from_pairs:
  assumes "value_pairs df' = value_pairs df"
  obtains out out' where "process_file time_id df = Inr out" and "process_file time_id' df' = Inr out'"
    and "column ''anomaly_score'' (table1 out') = column ''anomaly_score'' (table1 out)"
    and "column ''is_anomaly'' (table1 out') = column ''is_anomaly'' (table1 out)"
    and "column ''more_or_less'' (table1 out') = column ''more_or_less'' (table1 out)"
    and "column ''error'' (table1 out') = column ''error'' (table1 out)"
    and "avg_error out' = avg_error out" and "avg_error_pct out' = avg_error_pct out"
    and "total_error out' = total_error out" and "capped_pct out' = capped_pct out"
  by (simp add: process_file_closed Let_def detect_columns_from_pairs summary_inputs_from_pairs assms)

text \<open>
  Claim C7. Running \<open>process_file\<close> on any frame that holds the (before, after) value
  pairs of Table 1 gives the same four derived columns and the same four summary values
  as the first run; run on Table 1 itself it returns the first result again.
\<close>

theorem rerun_reproduces:
  "\<exists>out. process_file time_id df = Inr out \<and>
     (\<forall>df' time_id'. value_pairs df' = value_pairs (table1 out) \<longrightarrow>
        (\<exists>out'. process_file time_id' df' = Inr out' \<and>
           column ''anomaly_score'' (table1 out') = column ''anomaly_score'' (table1 out) \<and>
           column ''is_anomaly'' (table1 out') = column ''is_anomaly'' (table1 out) \<and>
           column ''more_or_less'' (table1 out') = column ''more_or_less'' (table1 out) \<and>
           column ''error'' (table1 out') = column ''error'' (table1 out) \<and>
           avg_error out' = avg_error out \<and> avg_error_pct out' = avg_error_pct out \<and>
           total_error out' = total_error out \<and> capped_pct out' = capped_pct out)) \<and>
     process_file time_id (table1 out) = Inr out"
proof -
  obtain out where out: "process_file time_id df = Inr out" and t1: "table1 out = map detect df"
    by (rule process_file_fields)
  have again: "process_file time_id (table1 out) = Inr out"
    by (simp only: t1 process_file_detect out)
  have "\<exists>out'. process_file time_id' df' = Inr out' \<and>
           column ''anomaly_score'' (table1 out') = column ''anomaly_score'' (table1 out) \<and>
           column ''is_anomaly'' (table1 out') = column ''is_anomaly'' (table1 out) \<and>
           column ''more_or_less'' (table1 out') = column ''more_or_less'' (table1 out) \<and>
           column ''error'' (table1 out') = column ''error'' (table1 out) \<and>
           avg_error out' = avg_error out \<and> avg_error_pct out' = avg_error_pct out \<and>
           total_error out' = total_error out \<and> capped_pct out' = capped_pct out"
    if "value_pairs df' = value_pairs (table1 out)" for df' time_id'
  proof -
    from that have "value_pairs df' = value_pairs df"
      by (simp add: t1 value_pairs_detect)
    then obtain o1 o2 where "process_file time_id df = Inr o1" "process_file time_id' df' = Inr o2"
      "column ''anomaly_score'' (table1 o2) = column ''anomaly_score'' (table1 o1)"
      "column ''is_anomaly'' (table1 o2) = column ''is_anomaly'' (table1 o1)"
      "column ''more_or_less'' (table1 o2) = column ''more_or_less'' (table1 o1)"
      "column ''error'' (table1 o2) = column ''error'' (table1 o1)"
      "avg_error o2 = avg_error o1" "avg_error_pct o2 = avg_error_pct o1"
      "total_error o2 = total_error o1" "capped_pct o2 = capped_pct o1"
      by (rule process_file_from_pairs)
    with out show ?thesis by simp
  qed
  with out again show ?thesis by blast
qed

theorem rerun_reproduces_witness:
  "value_pairs scenario_pairs_only =
     value_pairs (table1 (projr (process_file ''20240101_120000'' scenario_rows))) \<and>
   column ''error'' (table1 (projr (process_file ''20240202_080000'' scenario_pairs_only))) =
     column ''error'' (table1 (projr (process_file ''20240101_120000'' scenario_rows))) \<and>
   column ''more_or_less'' (table1 (projr (process_file ''20240202_080000'' scenario_pairs_only))) =
     column ''more_or_less'' (table1 (projr (process_file ''20240101_120000'' scenario_rows))) \<and>
   capped_pct (projr (process_file ''20240202_080000'' scenario_pairs_only)) =
     capped_pct (projr (process_file ''20240101_120000'' scenario_rows)) \<and>
   process_file ''20240101_120000'' (table1 (projr (process_file ''20240101_120000'' scenario_rows))) =
     process_file ''20240101_120000'' scenario_rows"
proof -
  have h: "value_pairs scenario_pairs_only =
     value_pairs (table1 (projr (process_file ''20240101_120000'' scenario_rows)))"
    by (simp add: process_file_closed Let_def value_pairs_detect)
       (simp add: value_pairs_def scenario_rows_def scenario_pairs_only_def)
  from rerun_reproduces [of "''20240101_120000''" scenario_rows] h show ?thesis
    by (metis sum.sel(2))
qed

section \<open>Columns that pass through\<close>

lemma detect_other_cells:
  "name \<notin> {''anomaly_score'', ''is_anomaly'', ''more_or_less'', ''error''} \<Longrightarrow>
   map_of (cols (detect r)) name = map_of (cols r) name"
  by (simp add: detect_def update_conv')

lemma correct_other_cells:
  "name \<notin> {''anomaly_score'', ''is_anomaly'', ''more_or_less'', ''error'', ''estimated''} \<Longrightarrow>
   map_of (cols (correct c r)) name = map_of (cols r) name"
  by (simp add: correct_def detect_def update_conv')

lemma detect_names:
  "fst ` set (cols (detect r)) =
     fst ` set (cols r) \<union> {''anomaly_score'', ''is_anomaly'', ''more_or_less'', ''error''}"
  by (auto simp: detect_def dom_update)

lemma correct_names:
  "fst ` set (cols (correct c r)) =
     fst ` set (cols r) \<union>
       {''anomaly_score'', ''is_anomaly'', ''more_or_less'', ''error'', ''estimated''}"
  by (auto simp: correct_def detect_names dom_update)

text \<open>
  Claim C8, as amended. \<open>process_file\<close> leaves \<open>ace_before\<close> and \<open>ace_after\<close> unchanged
  in both tables, and every other input column whose name is not the name of a derived
  column (\<open>anomaly_score\<close>, \<open>is_anomaly\<close>, \<open>more_or_less\<close>, \<open>error\<close>, and for Table 2
  also \<open>estimated\<close>) appears in both tables with its values unchanged; the column names
  of a table are those of the input and the derived ones. An input column that carries
  the name of a derived column is overwritten by the derived values.
\<close>

theorem other_columns_unchanged:
  "\<exists>out. process_file time_id df = Inr out \<and>
     map ace_before (table1 out) = map ace_before df \<and>
     map ace_after (table1 out) = map ace_after df \<and>
     map ace_before (table2 out) = map ace_before df \<and>
     map ace_after (table2 out) = map ace_after df \<and>
     (\<forall>name. name \<notin> {''anomaly_score'', ''is_anomaly'', ''more_or_less'', ''error''} \<longrightarrow>
        column name (table1 out) = column name df) \<and>
     (\<forall>name. name \<notin> {''anomaly_score'', ''is_anomaly'', ''more_or_less'', ''error'', ''estimated''} \<longrightarrow>
        column name (table2 out) = column name df) \<and>
     map (\<lambda>r. fst ` set (cols r)) (table1 out) =
       map (\<lambda>r. fst ` set (cols r) \<union>
                 {''anomaly_score'', ''is_anomaly'', ''more_or_less'', ''error''}) df \<and>
     map (\<lambda>r. fst ` set (cols r)) (table2 out) =
       map (\<lambda>r. fst ` set (cols r) \<union>
                 {''anomaly_score'', ''is_anomaly'', ''more_or_less'', ''error'', ''estimated''}) df"
proof -
  obtain out where out: "process_file time_id df = Inr out"
    and t1: "table1 out = map detect df"
    and t2: "table2 out = map (correct (capped_pct out)) df"
    by (rule process_file_fields)
  have "map ace_before (table1 out) = map ace_before df" "map ace_after (table1 out) = map ace_after df"
    "map ace_before (table2 out) = map ace_before df" "map ace_after (table2 out) = map ace_after df"
    by (simp_all add: t1 t2 detect_fields correct_fields comp_def)
  moreover have "column name (table1 out) = column name df"
    if "name \<notin> {''anomaly_score'', ''is_anomaly'', ''more_or_less'', ''error''}" for name
    by (simp add: t1 column_def comp_def detect_other_cells [OF that])
  moreover have "column name (table2 out) = column name df"
    if "name \<notin> {''anomaly_score'', ''is_anomaly'', ''more_or_less'', ''error'', ''estimated''}" for name
    by (simp add: t2 column_def comp_def correct_other_cells [OF that])
  moreover have "map (\<lambda>r. fst ` set (cols r)) (table1 out) =
       map (\<lambda>r. fst ` set (cols r) \<union>
                 {''anomaly_score'', ''is_anomaly'', ''more_or_less'', ''error''}) df"
    by (simp only: t1 map_map comp_def detect_names)
  moreover have "map (\<lambda>r. fst ` set (cols r)) (table2 out) =
       map (\<lambda>r. fst ` set (cols r) \<union>
                 {''anomaly_score'', ''is_anomaly'', ''more_or_less'', ''error'', ''estimated''}) df"
    by (simp only: t2 map_map comp_def correct_names)
  ultimately show ?thesis
    using out by blast
qed

theorem other_columns_unchanged_witness:
  "column ''site'' (table1 (projr (process_file ''20240101_120000'' clashing_rows))) =
     [Some (CStr ''north'')] \<and>
   column ''timestamp'' (table2 (projr (process_file ''20240101_120000'' clashing_rows))) =
     [Some (CStr ''t1'')] \<and>
   map ace_after (table2 (projr (process_file ''20240101_120000'' clashing_rows))) = [2]"
proof -
  have n: "''site'' \<notin> {''anomaly_score'', ''is_anomaly'', ''more_or_less'', ''error''}"
    "''timestamp'' \<notin> {''anomaly_score'', ''is_anomaly'', ''more_or_less'', ''error'', ''estimated''}"
    by simp_all
  have c: "column ''site'' clashing_rows = [Some (CStr ''north'')]"
    "column ''timestamp'' clashing_rows = [Some (CStr ''t1'')]"
    "map ace_after clashing_rows = [2]"
    by (simp_all add: column_def clashing_rows_def)
  from other_columns_unchanged [of "''20240101_120000''" clashing_rows] n c show ?thesis
    by (metis sum.sel(2))
qed

text \<open>The claim as stated fails for an extra column named \<open>error\<close>.\<close>

theorem extra_column_counterexample:
  "column ''error'' clashing_rows = [Some (CStr ''sensor fault'')] \<and>
   column ''error'' (table1 (projr (process_file ''20240101_120000'' clashing_rows))) =
     [Some (CFloat (Finite 1))] \<and>
   column ''error'' (table2 (projr (process_file ''20240101_120000'' clashing_rows))) =
     [Some (CFloat (Finite 1))]"
  by (simp add: process_file_def set_column_def get_column_def row_get_def
        more_or_less_lambda_def error_lambda_def estimated_lambda_def
        series_mean_def series_sum_def py_min_def inf_of_sign_def Let_def
        column_def clashing_rows_def)

section \<open>The correction estimator\<close>

lemma round_half_even_near: "\<bar>of_int (round_half_even y) - y\<bar> \<le> 1 / 2"
  unfolding round_half_even_def Let_def by (simp split: if_splits)

lemma scaled_near:
  fixes r y :: real
  assumes "\<bar>r - y * 10 ^ 4\<bar> \<le> 1 / 2"
  shows "\<bar>r / 10 ^ 4 - y\<bar> \<le> 1 / 20000"
proof -
  have "r / 10 ^ 4 - y = (r - y * 10 ^ 4) / 10 ^ 4"
    by (simp add: field_simps)
  then have "\<bar>r / 10 ^ 4 - y\<bar> = \<bar>r - y * 10 ^ 4\<bar> / 10 ^ 4"
    by (simp only: abs_divide) simp
  also have "\<dots> \<le> (1 / 2) / 10 ^ 4"
    using assms by (rule divide_right_mono) simp
  finally show ?thesis by simp
qed

lemma capped_of_anomalous:
  assumes "i < length df" and "ace_before (df ! i) \<noteq> ace_after (df ! i)"
  obtains out p where "process_file time_id df = Inr out" and "capped_pct out = Finite p"
    and "table2 out = map (correct (Finite p)) df"
proof -
  obtain out where out: "process_file time_id df = Inr out"
    and t2: "table2 out = map (correct (capped_pct out)) df"
    and f: "avg_error out = series_mean (map (\<lambda>r. Finite (error_of r)) df)"
      "avg_error_pct out =
           pf_mul (pf_div (avg_error out) (series_mean (map (\<lambda>r. Finite (ace_before r)) df)))
             (Finite 100)"
      "capped_pct out = py_min (avg_error_pct out) (Finite 5)"
    by (rule process_file_fields)
  from assms(1) have ne: "df \<noteq> []" by auto
  have e: "map (\<lambda>r. Finite (error_of r)) df = map Finite (map error_of df)"
    by simp
  have b: "map (\<lambda>r. Finite (ace_before r)) df = map Finite (map ace_before df)"
    by simp
  have "\<not> (\<forall>r\<in>set df. ace_before r = ace_after r)"
    using assms nth_mem by blast
  then have "sum_list (map error_of df) \<noteq> 0"
    by (simp only: sum_error_of_zero_iff not_False_eq_True)
  with sum_error_of_nonneg [of df] have "0 < sum_list (map error_of df)"
    by simp
  moreover have "0 < real (length df)"
    using ne by simp
  ultimately have pos: "0 < sum_list (map error_of df) / real (length df)"
    by (rule divide_pos_pos)
  obtain a m where avg: "avg_error out = Finite a" and a: "0 < a"
    and mb: "series_mean (map (\<lambda>r. Finite (ace_before r)) df) = Finite m"
    unfolding f e b series_mean_Finite using ne pos by simp
  have "\<exists>p. py_min (pf_mul (pf_div (Finite a) (Finite m)) (Finite 100)) (Finite 5) = Finite p"
    using a by (simp add: py_min_def inf_of_sign_def sgn_if)
  then obtain p where "capped_pct out = Finite p"
    unfolding f(3) f(2) avg mb by blast
  with out t2 that show ?thesis by simp
qed

lemma estimate_anomalous:
  "ace_before r \<noteq> ace_after r \<Longrightarrow>
   estimate (Finite p) r =
     CFloat (Finite (of_int (round_half_even (ace_before r * (1 + p / 100) * 10 ^ 4)) / 10 ^ 4))"
  by (simp add: estimate_def score_of_def)

text \<open>
  Claim C2. In every row of Table 2 the \<open>estimated\<close> cell is what the row function
  \<open>estimated_lambda\<close> returns on the row of Table 1: the before value itself when the
  anomaly score is -1; when the score is 1, a multiple of 0.0001 that lies within
  0.00005 of before * (1 + capped_pct / 100), that is, this product rounded to 4
  decimals. The row function reads only the before value and the anomaly score of the
  row (and the capped percentage): two rows that agree on these give the same result,
  whatever their after values.
\<close>

theorem estimated_from_before_score_capped:
  assumes "i < length df"
  shows "\<exists>out s c. process_file time_id df = Inr out \<and>
     ace_before (table1 out ! i) = ace_before (df ! i) \<and>
     map_of (cols (table1 out ! i)) ''anomaly_score'' = Some (CInt s) \<and> (s = 1 \<or> s = - 1) \<and>
     estimated_lambda (capped_pct out) (table1 out ! i) = Inr c \<and>
     cell_at (table2 out) i ''estimated'' = Some c \<and>
     (s = - 1 \<longrightarrow> c = CFloat (Finite (ace_before (df ! i)))) \<and>
     (s = 1 \<longrightarrow>
        (\<exists>p e n. capped_pct out = Finite p \<and> c = CFloat (Finite e) \<and>
           e = real_of_int n / 10 ^ 4 \<and>
           \<bar>e - ace_before (df ! i) * (1 + p / 100)\<bar> \<le> 1 / 20000)) \<and>
     (\<forall>c' r r'. ace_before r = ace_before r' \<and>
          map_of (cols r) ''anomaly_score'' = map_of (cols r') ''anomaly_score'' \<longrightarrow>
          estimated_lambda c' r = estimated_lambda c' r')"
proof -
  let ?b = "ace_before (df ! i)"
  obtain out where out: "process_file time_id df = Inr out"
    and t1: "table1 out = map detect df"
    and t2: "table2 out = map (correct (capped_pct out)) df"
    by (rule process_file_fields)
  let ?c = "estimate (capped_pct out) (df ! i)"
  have row: "ace_before (table1 out ! i) = ?b"
    "map_of (cols (table1 out ! i)) ''anomaly_score'' = Some (CInt (score_of (df ! i)))"
    "estimated_lambda (capped_pct out) (table1 out ! i) = Inr ?c"
    "cell_at (table2 out) i ''estimated'' = Some ?c"
    using assms
    by (simp_all add: t1 t2 detect_fields detect_cells estimated_lambda_detect cell_at_def
          correct_cells)
  have sc: "score_of (df ! i) = 1 \<or> score_of (df ! i) = - 1"
    by (simp add: score_of_def)
  have same: "?c = CFloat (Finite ?b)" if "score_of (df ! i) = - 1"
    using that by (simp add: estimate_def)
  have rounded: "\<exists>p e n. capped_pct out = Finite p \<and> ?c = CFloat (Finite e) \<and>
           e = real_of_int n / 10 ^ 4 \<and> \<bar>e - ?b * (1 + p / 100)\<bar> \<le> 1 / 20000"
    if "score_of (df ! i) = 1"
  proof -
    from that have an: "ace_before (df ! i) \<noteq> ace_after (df ! i)"
      by (simp add: score_of_def split: if_splits)
    obtain out' p where "process_file time_id df = Inr out'" and "capped_pct out' = Finite p"
      using assms an by (rule capped_of_anomalous)
    with out have p: "capped_pct out = Finite p"
      by simp
    define n where "n = round_half_even (?b * (1 + p / 100) * 10 ^ 4)"
    define e where "e = real_of_int n / 10 ^ 4"
    have c: "?c = CFloat (Finite e)"
      unfolding p e_def n_def using an by (rule estimate_anomalous)
    have "\<bar>real_of_int n - ?b * (1 + p / 100) * 10 ^ 4\<bar> \<le> 1 / 2"
      unfolding n_def by (rule round_half_even_near)
    then have "\<bar>e - ?b * (1 + p / 100)\<bar> \<le> 1 / 20000"
      unfolding e_def by (rule scaled_near)
    with p c e_def have "capped_pct out = Finite p \<and> ?c = CFloat (Finite e) \<and>
           e = real_of_int n / 10 ^ 4 \<and> \<bar>e - ?b * (1 + p / 100)\<bar> \<le> 1 / 20000"
      by (intro conjI) assumption+
    then show ?thesis
      by (intro exI)
  qed
  have reads: "\<forall>c' r r'. ace_before r = ace_before r' \<and>
          map_of (cols r) ''anomaly_score'' = map_of (cols r') ''anomaly_score'' \<longrightarrow>
          estimated_lambda c' r = estimated_lambda c' r'"
    by (intro allI impI, elim conjE, rule estimated_lambda_reads)
  from same have B: "score_of (df ! i) = - 1 \<longrightarrow> ?c = CFloat (Finite ?b)"
    by (rule impI)
  from rounded have C: "score_of (df ! i) = 1 \<longrightarrow>
        (\<exists>p e n. capped_pct out = Finite p \<and> ?c = CFloat (Finite e) \<and>
           e = real_of_int n / 10 ^ 4 \<and> \<bar>e - ?b * (1 + p / 100)\<bar> \<le> 1 / 20000)"
    by (rule impI)
  from out row sc B C reads
  have "process_file time_id df = Inr out \<and>
     ace_before (table1 out ! i) = ace_before (df ! i) \<and>
     map_of (cols (table1 out ! i)) ''anomaly_score'' = Some (CInt (score_of (df ! i))) \<and>
     (score_of (df ! i) = 1 \<or> score_of (df ! i) = - 1) \<and>
     estimated_lambda (capped_pct out) (table1 out ! i) = Inr ?c \<and>
     cell_at (table2 out) i ''estimated'' = Some ?c \<and>
     (score_of (df ! i) = - 1 \<longrightarrow> ?c = CFloat (Finite (ace_before (df ! i)))) \<and>
     (score_of (df ! i) = 1 \<longrightarrow>
        (\<exists>p e n. capped_pct out = Finite p \<and> ?c = CFloat (Finite e) \<and>
           e = real_of_int n / 10 ^ 4 \<and>
           \<bar>e - ace_before (df ! i) * (1 + p / 100)\<bar> \<le> 1 / 20000)) \<and>
     (\<forall>c' r r'. ace_before r = ace_before r' \<and>
          map_of (cols r) ''anomaly_score'' = map_of (cols r') ''anomaly_score'' \<longrightarrow>
          estimated_lambda c' r = estimated_lambda c' r')"
    by (intro conjI) assumption+
  then show ?thesis
    by (intro exI)
qed

theorem estimated_from_before_score_capped_witness:
  "0 < length rounding_rows \<and> 1 < length rounding_rows \<and>
   capped_pct (projr (process_file ''20240101_120000'' rounding_rows)) = Finite 5 \<and>
   cell_at (table2 (projr (process_file ''20240101_120000'' rounding_rows))) 0 ''anomaly_score'' =
     Some (CInt 1) \<and>
   cell_at (table2 (projr (process_file ''20240101_120000'' rounding_rows))) 0 ''estimated'' =
     Some (CFloat (Finite (1296 / 10 ^ 4))) \<and>
   ace_before (rounding_rows ! 0) * (1 + 5 / 100) = 1296225 / 10 ^ 7 \<and>
   cell_at (table2 (projr (process_file ''20240101_120000'' rounding_rows))) 1 ''anomaly_score'' =
     Some (CInt (- 1)) \<and>
   cell_at (table2 (projr (process_file ''20240101_120000'' rounding_rows))) 1 ''estimated'' =
     Some (CFloat (Finite 2))"
proof -
  have h: "0 < length rounding_rows" "1 < length rounding_rows"
    by (simp_all add: rounding_rows_def)
  have c: "capped_pct (projr (process_file ''20240101_120000'' rounding_rows)) = Finite 5"
    by (simp add: process_file_closed Let_def rounding_rows_def series_mean_def error_of_def
          py_min_def)
  have t: "table2 (projr (process_file ''20240101_120000'' rounding_rows)) =
      map (correct (Finite 5)) rounding_rows"
    using c by (simp add: process_file_closed Let_def)
  have v: "cell_at (table2 (projr (process_file ''20240101_120000'' rounding_rows))) 0 ''anomaly_score'' =
     Some (CInt 1)"
    "cell_at (table2 (projr (process_file ''20240101_120000'' rounding_rows))) 0 ''estimated'' =
     Some (CFloat (Finite (1296 / 10 ^ 4)))"
    "ace_before (rounding_rows ! 0) * (1 + 5 / 100) = 1296225 / 10 ^ 7"
    "cell_at (table2 (projr (process_file ''20240101_120000'' rounding_rows))) 1 ''anomaly_score'' =
     Some (CInt (- 1))"
    "cell_at (table2 (projr (process_file ''20240101_120000'' rounding_rows))) 1 ''estimated'' =
     Some (CFloat (Finite 2))"
    unfolding t
    by (simp_all add: cell_at_def correct_cells estimate_def score_of_def
          rounding_rows_def round_half_even_def)
  have "\<exists>out s c. process_file ''20240101_120000'' rounding_rows = Inr out \<and>
      cell_at (table2 out) 0 ''estimated'' = Some c"
    using estimated_from_before_score_capped [OF h(1), of "''20240101_120000''" ] by blast
  moreover have "\<exists>out s c. process_file ''20240101_120000'' rounding_rows = Inr out \<and>
      cell_at (table2 out) 1 ''estimated'' = Some c"
    using estimated_from_before_score_capped [OF h(2), of "''20240101_120000''" ] by blast
  ultimately show ?thesis
    using h c v by (intro conjI) assumption+
qed

text \<open>
  Claim C10, as amended. For an anomalous row with before > 0, whatever its direction,
  \<open>estimated\<close> lies within 0.00005 of before * (1 + capped_pct / 100), a value that is
  above before when capped_pct > 0; \<open>estimated\<close> itself is strictly greater than before
  whenever the increase before * capped_pct / 100 exceeds 0.00005.
\<close>

theorem estimate_above_before:
  assumes "i < length df" and "ace_before (df ! i) \<noteq> ace_after (df ! i)"
    and "0 < ace_before (df ! i)"
  shows "\<exists>out p e. process_file time_id df = Inr out \<and> capped_pct out = Finite p \<and>
     cell_at (table2 out) i ''estimated'' = Some (CFloat (Finite e)) \<and>
     \<bar>e - ace_before (df ! i) * (1 + p / 100)\<bar> \<le> 1 / 20000 \<and>
     (0 < p \<longrightarrow> ace_before (df ! i) < ace_before (df ! i) * (1 + p / 100)) \<and>
     (1 / 20000 < ace_before (df ! i) * p / 100 \<longrightarrow> ace_before (df ! i) < e)"
proof -
  let ?b = "ace_before (df ! i)"
  obtain out p where out: "process_file time_id df = Inr out" and p: "capped_pct out = Finite p"
    and t2: "table2 out = map (correct (Finite p)) df"
    using assms(1,2) by (rule capped_of_anomalous)
  define x where "x = ?b * (1 + p / 100)"
  define e where "e = real_of_int (round_half_even (x * 10 ^ 4)) / 10 ^ 4"
  have c: "cell_at (table2 out) i ''estimated'' = Some (CFloat (Finite e))"
    using assms(1,2) by (simp add: t2 cell_at_def correct_cells estimate_anomalous e_def x_def)
  have "\<bar>real_of_int (round_half_even (x * 10 ^ 4)) - x * 10 ^ 4\<bar> \<le> 1 / 2"
    by (rule round_half_even_near)
  then have near: "\<bar>e - x\<bar> \<le> 1 / 20000"
    unfolding e_def by (rule scaled_near)
  have xb: "x = ?b + ?b * p / 100"
    by (simp add: x_def algebra_simps)
  have up: "?b < x" if "0 < p"
  proof -
    have "0 < ?b * p"
      using assms(3) that by simp
    with xb show ?thesis
      by simp
  qed
  have gt: "?b < e" if "1 / 20000 < ?b * p / 100"
    using near xb that by linarith
  from out p c near up gt show ?thesis
    unfolding x_def by blast
qed

theorem estimate_above_before_witness:
  "2 < length scenario_rows \<and> ace_before (scenario_rows ! 2) \<noteq> ace_after (scenario_rows ! 2) \<and>
   0 < ace_before (scenario_rows ! 2) \<and>
   cell_at (table1 (projr (process_file ''20240101_120000'' scenario_rows))) 2 ''more_or_less'' =
     Some (CStr ''less'') \<and>
   (\<exists>e. cell_at (table2 (projr (process_file ''20240101_120000'' scenario_rows))) 2 ''estimated'' =
          Some (CFloat (Finite e)) \<and> ace_before (scenario_rows ! 2) < e)"
proof -
  have h: "2 < length scenario_rows" "ace_before (scenario_rows ! 2) \<noteq> ace_after (scenario_rows ! 2)"
    "0 < ace_before (scenario_rows ! 2)"
    by (simp_all add: scenario_rows_def)
  have c: "capped_pct (projr (process_file ''20240101_120000'' scenario_rows)) = Finite 5"
    by (simp add: process_file_closed Let_def scenario_rows_def series_mean_def error_of_def py_min_def)
  have d: "cell_at (table1 (projr (process_file ''20240101_120000'' scenario_rows))) 2 ''more_or_less'' =
     Some (CStr ''less'')"
    by (simp add: process_file_closed Let_def cell_at_def detect_cells direction_of_def
          scenario_rows_def)
  have b: "(1::real) / 20000 < ace_before (scenario_rows ! 2) * 5 / 100"
    by (simp add: scenario_rows_def)
  obtain out p e where out: "process_file ''20240101_120000'' scenario_rows = Inr out"
    and p: "capped_pct out = Finite p"
    and e: "cell_at (table2 out) 2 ''estimated'' = Some (CFloat (Finite e))"
    and gt: "1 / 20000 < ace_before (scenario_rows ! 2) * p / 100 \<longrightarrow> ace_before (scenario_rows ! 2) < e"
    using estimate_above_before [OF h, of "''20240101_120000''"] by blast
  from c out p have "p = 5"
    by simp
  with gt b have "ace_before (scenario_rows ! 2) < e"
    by blast
  with e out have "\<exists>e. cell_at (table2 (projr (process_file ''20240101_120000'' scenario_rows))) 2 ''estimated'' =
          Some (CFloat (Finite e)) \<and> ace_before (scenario_rows ! 2) < e"
    by auto
  with h d show ?thesis
    by blast
qed

text \<open>
  The claim as stated fails: the row is anomalous, before and capped_pct are positive,
  and \<open>estimated\<close> is 0, below before.
\<close>

theorem estimate_above_before_counterexample:
  "cell_at (table1 (projr (process_file ''20240101_120000'' tiny_rows))) 0 ''anomaly_score'' =
     Some (CInt 1) \<and>
   0 < ace_before (tiny_rows ! 0) \<and>
   capped_pct (projr (process_file ''20240101_120000'' tiny_rows)) = Finite 5 \<and>
   cell_at (table2 (projr (process_file ''20240101_120000'' tiny_rows))) 0 ''estimated'' =
     Some (CFloat (Finite 0)) \<and>
   \<not> ace_before (tiny_rows ! 0) < 0"
  by (simp add: process_file_def set_column_def get_column_def row_get_def
        more_or_less_lambda_def error_lambda_def estimated_lambda_def
        series_mean_def series_sum_def py_min_def inf_of_sign_def Let_def
        cell_at_def round_half_even_def tiny_rows_def)

end
